theory Spec2Isabelle
  imports Main "HOL-Library.AList"
begin

section \<open>Values of unstructured objects\<close>

text \<open>
  An unstructured Kubernetes object is a Go \<^verbatim>\<open>map[string]interface{}\<close>. The dynamic types
  an \<^verbatim>\<open>interface{}\<close> leaf can have are the constructors of \<open>gval\<close>. \<open>GMap\<close> is
  \<^verbatim>\<open>map[string]interface{}\<close> (what decoding YAML or JSON produces for every nested object)
  and \<open>GStrMap\<close> is \<^verbatim>\<open>map[string]string\<close>: the two are different dynamic types, and a type
  assertion to one fails on the other. Maps are association lists read with \<open>map_of\<close>;
  numeric leaves are never inspected by the code, so one integer constructor stands for them.
\<close>

datatype gval =
    GNil
  | GBool bool
  | GInt int
  | GString string
  | GList "gval list"
  | GMap "(string \<times> gval) list"
  | GStrMap "(string \<times> string) list"

type_synonym obj = "(string \<times> gval) list"

datatype error = SyntaxError string string | ConvertError string | LoadError string

text \<open>Ways in which a call does not return: a Go panic, or \<^verbatim>\<open>log.Fatalf\<close> ending the process.\<close>

datatype abort = PanicIndexOutOfRange | PanicCannotDeepCopy | PanicNilPointer | FatalExit

section \<open>Library operations used by the renderer\<close>

text \<open>\<^verbatim>\<open>strconv.ParseBool\<close>: the accepted spellings, and \<open>(false, error)\<close> for anything else.\<close>

definition ParseBool :: "string \<Rightarrow> bool \<times> error option" where
  "ParseBool str =
     (if str \<in> set [''1'', ''t'', ''T'', ''true'', ''TRUE'', ''True''] then (True, None)
      else if str \<in> set [''0'', ''f'', ''F'', ''false'', ''FALSE'', ''False''] then (False, None)
      else (False, Some (SyntaxError ''ParseBool'' str)))"

text \<open>Indexing a \<^verbatim>\<open>map[string]string\<close>: the zero value \<open>""\<close> for a missing key.\<close>

definition strIndex :: "(string \<times> string) list \<Rightarrow> string \<Rightarrow> string" where
  "strIndex m k = (case map_of m k of None \<Rightarrow> [] | Some v \<Rightarrow> v)"

text \<open>
  \<^verbatim>\<open>unstructured.NestedFieldNoCopy\<close>: walk the path through nested
  \<^verbatim>\<open>map[string]interface{}\<close> values. \<open>None\<close> stands for both "not found" and the error
  returned when a value on the way is not such a map; every caller below treats them alike.
\<close>

fun NestedFieldNoCopy :: "obj \<Rightarrow> string list \<Rightarrow> gval option" where
  "NestedFieldNoCopy m [] = Some (GMap m)"
| "NestedFieldNoCopy m [field] = map_of m field"
| "NestedFieldNoCopy m (field # fields) =
     (case map_of m field of
        Some (GMap m') \<Rightarrow> NestedFieldNoCopy m' fields
      | _ \<Rightarrow> None)"

definition getNestedString :: "obj \<Rightarrow> string list \<Rightarrow> string" where
  "getNestedString m fields =
     (case NestedFieldNoCopy m fields of Some (GString s) \<Rightarrow> s | _ \<Rightarrow> [])"

definition GetKind :: "obj \<Rightarrow> string" where
  "GetKind u = getNestedString u [''kind'']"

definition GetNamespace :: "obj \<Rightarrow> string" where
  "GetNamespace u = getNestedString u [''metadata'', ''namespace'']"

text \<open>
  The method \<^verbatim>\<open>setNestedField\<close> of \<^verbatim>\<open>Unstructured\<close>: it calls
  \<^verbatim>\<open>SetNestedField\<close> and drops its error, so an object whose path runs into a value that
  is not a \<^verbatim>\<open>map[string]interface{}\<close> is left as it was. Missing maps on the way are
  created.
\<close>

fun setNestedField :: "obj \<Rightarrow> gval \<Rightarrow> string list \<Rightarrow> obj" where
  "setNestedField m val [] = m"
| "setNestedField m val [field] = AList.update field val m"
| "setNestedField m val (field # fields) =
     (case map_of m field of
        Some (GMap valMap) \<Rightarrow> AList.update field (GMap (setNestedField valMap val fields)) m
      | Some _ \<Rightarrow> m
      | None \<Rightarrow> AList.update field (GMap (setNestedField [] val fields)) m)"

fun RemoveNestedField :: "obj \<Rightarrow> string list \<Rightarrow> obj" where
  "RemoveNestedField m [] = m"
| "RemoveNestedField m [field] = AList.delete field m"
| "RemoveNestedField m (field # fields) =
     (case map_of m field of
        Some (GMap x) \<Rightarrow> AList.update field (GMap (RemoveNestedField x fields)) m
      | _ \<Rightarrow> m)"

definition SetNamespace :: "string \<Rightarrow> obj \<Rightarrow> obj" where
  "SetNamespace namespace u =
     (if namespace = [] then RemoveNestedField u [''metadata'', ''namespace'']
      else setNestedField u (GString namespace) [''metadata'', ''namespace''])"

fun isGString :: "gval \<Rightarrow> bool" where
  "isGString (GString s) = True"
| "isGString _ = False"

fun strOf :: "gval \<Rightarrow> string" where
  "strOf (GString s) = s"
| "strOf _ = []"

text \<open>\<^verbatim>\<open>GetLabels\<close> is \<^verbatim>\<open>NestedStringMap\<close> at \<open>metadata.labels\<close>, with \<open>nil\<close> (no labels)
  when the field is missing, is not a map, or holds a value that is not a string.\<close>

definition NestedStringMap :: "obj \<Rightarrow> string list \<Rightarrow> (string \<times> string) list" where
  "NestedStringMap m fields =
     (case NestedFieldNoCopy m fields of
        Some (GMap sm) \<Rightarrow>
          (if list_all (\<lambda>kv. isGString (snd kv)) sm
           then map (\<lambda>kv. (fst kv, strOf (snd kv))) sm else [])
      | _ \<Rightarrow> [])"

definition GetLabels :: "obj \<Rightarrow> (string \<times> string) list" where
  "GetLabels u = NestedStringMap u [''metadata'', ''labels'']"

definition SetLabels :: "(string \<times> string) list \<Rightarrow> obj \<Rightarrow> obj" where
  "SetLabels labels u =
     setNestedField u (GMap (map (\<lambda>kv. (fst kv, GString (snd kv))) labels))
       [''metadata'', ''labels'']"

text \<open>
  \<^verbatim>\<open>runtime.DeepCopyJSONValue\<close> copies nil, booleans, numbers, strings, slices and
  \<^verbatim>\<open>map[string]interface{}\<close>, and panics on every other dynamic type. \<open>jsonShaped\<close> holds
  of the values it copies; the copy is structurally equal to the original.
\<close>

fun jsonShaped :: "gval \<Rightarrow> bool" where
  "jsonShaped (GList xs) = (\<forall>x \<in> set xs. jsonShaped x)"
| "jsonShaped (GMap m) = (\<forall>x \<in> snd ` set m. jsonShaped x)"
| "jsonShaped (GStrMap m) = False"
| "jsonShaped _ = True"

section \<open>The owning entity and the heap of resources\<close>

text \<open>Of the \<^verbatim>\<open>MultiClusterHub\<close> custom resource the renderer reads only name and namespace.\<close>

record MultiClusterHub =
  mchName :: string
  mchNamespace :: string

text \<open>
  Resources are handled through pointers, and a resource shares its map with every
  \<^verbatim>\<open>Unstructured\<close> built from \<^verbatim>\<open>res.Map()\<close>. The heap is the list of all object maps
  allocated so far; an address is an index into it. A \<^verbatim>\<open>*resource.Resource\<close> and an
  \<^verbatim>\<open>*unstructured.Unstructured\<close> are both represented by the address of their map.
\<close>

type_synonym addr = nat
type_synonym heap = "obj list"

definition alloc :: "heap \<Rightarrow> obj \<Rightarrow> heap \<times> addr" where
  "alloc h v = (h @ [v], length h)"

text \<open>
  \<^verbatim>\<open>Resource.DeepCopy\<close>: a new resource over a deep copy of the map, made by
  \<^verbatim>\<open>Unstructured.DeepCopy\<close> with \<^verbatim>\<open>runtime.DeepCopyJSON\<close>.
\<close>

definition DeepCopy :: "heap \<Rightarrow> addr \<Rightarrow> abort + heap \<times> addr" where
  "DeepCopy h a =
     (if jsonShaped (GMap (h ! a)) then Inr (alloc h (h ! a)) else Inl PanicCannotDeepCopy)"

section \<open>The typed form of a ClusterRoleBinding\<close>

record Subject =
  subjKind :: string
  subjAPIGroup :: string
  subjName :: string
  subjNamespace :: string

record RoleRef =
  refAPIGroup :: string
  refKind :: string
  refName :: string

text \<open>The renderer touches only \<open>Subjects\<close>; the object metadata is a type parameter.\<close>

record 'om ClusterRoleBinding =
  crbKind :: string
  crbAPIVersion :: string
  crbObjectMeta :: 'om
  Subjects :: "Subject list"
  crbRoleRef :: RoleRef

text \<open>\<^verbatim>\<open>runtime.DefaultUnstructuredConverter\<close>, as a pair of fallible functions.\<close>

record 'om converter =
  FromUnstructured :: "obj \<Rightarrow> error + 'om ClusterRoleBinding"
  ToUnstructured :: "'om ClusterRoleBinding \<Rightarrow> error + obj"

section \<open>renderer.go\<close>

text \<open>
  Modelled from the spec: \<^verbatim>\<open>utils.AddInstallerLabel\<close> (package \<^verbatim>\<open>pkg/utils\<close> is not among
  the sources). The spec says it attaches an ownership/installer label derived from the
  owning entity's name and namespace: the labels \<open>installer.name\<close> and
  \<open>installer.namespace\<close> are added to the object's labels and the result is stored with
  \<^verbatim>\<open>SetLabels\<close>.
\<close>

definition AddInstallerLabel :: "obj \<Rightarrow> string \<Rightarrow> string \<Rightarrow> obj" where
  "AddInstallerLabel u name ns =
     SetLabels (AList.update ''installer.namespace'' ns
                 (AList.update ''installer.name'' name (GetLabels u))) u"

definition UpdateNamespace :: "obj \<Rightarrow> bool" where
  "UpdateNamespace u =
     (case map_of u ''metadata'' of
        Some (GMap metadata) \<Rightarrow>
          (case map_of metadata ''annotations'' of
             Some (GStrMap annotations) \<Rightarrow>
               (if strIndex annotations ''update-namespace'' \<noteq> []
                then fst (ParseBool (strIndex annotations ''update-namespace''))
                else True)
           | _ \<Rightarrow> True)
      | _ \<Rightarrow> True)"

text \<open>
  A render function gets the heap and the address of the resource, and returns the new heap
  with Go's pair \<^verbatim>\<open>(*Unstructured, error)\<close>, or does not return.
\<close>

type_synonym renderFn = "heap \<Rightarrow> addr \<Rightarrow> abort + heap \<times> addr option \<times> error option"

definition renderNamespace :: "MultiClusterHub \<Rightarrow> renderFn" where
  "renderNamespace cr h res =
     (let h' = (if UpdateNamespace (h ! res) then h[res := SetNamespace (mchNamespace cr) (h ! res)]
                else h)
      in Inr (h', Some res, None))"

definition renderClusterRole :: "MultiClusterHub \<Rightarrow> renderFn" where
  "renderClusterRole cr h res =
     Inr (h[res := AddInstallerLabel (h ! res) (mchName cr) (mchNamespace cr)], Some res, None)"

definition renderClusterRoleBinding :: "'om converter \<Rightarrow> MultiClusterHub \<Rightarrow> renderFn" where
  "renderClusterRoleBinding conv cr h res =
     (let h1 = h[res := AddInstallerLabel (h ! res) (mchName cr) (mchNamespace cr)] in
      case FromUnstructured conv (h1 ! res) of
        Inl err \<Rightarrow> Inr (h1, None, Some err)
      | Inr clusterRoleBinding \<Rightarrow>
          (case Subjects clusterRoleBinding of
             [] \<Rightarrow> Inl PanicIndexOutOfRange
           | subject # rest \<Rightarrow>
               if subjKind subject = ''Group'' then Inr (h1, Some res, None)
               else
                 (let crb' = (if UpdateNamespace (h1 ! res)
                              then clusterRoleBinding
                                     \<lparr>Subjects := subject\<lparr>subjNamespace := mchNamespace cr\<rparr> # rest\<rparr>
                              else clusterRoleBinding)
                  in case ToUnstructured conv crb' of
                       Inl err \<Rightarrow> Inr (h1, None, Some err)
                     | Inr newCRB \<Rightarrow> (case alloc h1 newCRB of (h2, u') \<Rightarrow> Inr (h2, Some u', None)))))"

definition renderCRD :: "MultiClusterHub \<Rightarrow> renderFn" where
  "renderCRD cr h res =
     Inr (h[res := AddInstallerLabel (h ! res) (mchName cr) (mchNamespace cr)], Some res, None)"

record Renderer =
  cr :: MultiClusterHub
  renderFns :: "string \<Rightarrow> renderFn option"

definition NewRenderer :: "'om converter \<Rightarrow> MultiClusterHub \<Rightarrow> Renderer" where
  "NewRenderer conv multipleClusterHub =
     \<lparr> cr = multipleClusterHub,
       renderFns = map_of
         [(''Deployment'', renderNamespace multipleClusterHub),
          (''Service'', renderNamespace multipleClusterHub),
          (''ServiceAccount'', renderNamespace multipleClusterHub),
          (''ConfigMap'', renderNamespace multipleClusterHub),
          (''ClusterRoleBinding'', renderClusterRoleBinding conv multipleClusterHub),
          (''ClusterRole'', renderClusterRole multipleClusterHub),
          (''Subscription'', renderNamespace multipleClusterHub),
          (''StatefulSet'', renderNamespace multipleClusterHub),
          (''Channel'', renderNamespace multipleClusterHub),
          (''CustomResourceDefinition'', renderCRD multipleClusterHub)] \<rparr>"

text \<open>
  The loop of \<^verbatim>\<open>renderTemplates\<close>, with the heap and the slice \<open>uobjs\<close> built so far. A
  resource of a kind without render function is wrapped as it is: the output shares the map
  of the template. The result is Go's pair \<^verbatim>\<open>([]*Unstructured, error)\<close>.
\<close>

fun renderLoop ::
  "Renderer \<Rightarrow> heap \<Rightarrow> addr list \<Rightarrow> addr list \<Rightarrow> abort + heap \<times> addr list \<times> error option" where
  "renderLoop r h uobjs [] = Inr (h, uobjs, None)"
| "renderLoop r h uobjs (template # templates) =
     (case renderFns r (GetKind (h ! template)) of
        None \<Rightarrow> renderLoop r h (uobjs @ [template]) templates
      | Some render \<Rightarrow>
          (case DeepCopy h template of
             Inl p \<Rightarrow> Inl p
           | Inr (h1, copy) \<Rightarrow>
               (case render h1 copy of
                  Inl p \<Rightarrow> Inl p
                | Inr (h2, uobj, err) \<Rightarrow>
                    (case err of
                       Some e \<Rightarrow> Inr (h2, [], Some e)
                     | None \<Rightarrow>
                         (case uobj of
                            None \<Rightarrow> renderLoop r h2 uobjs templates
                          | Some u \<Rightarrow> renderLoop r h2 (uobjs @ [u]) templates)))))"

definition renderTemplates ::
  "Renderer \<Rightarrow> heap \<Rightarrow> addr list \<Rightarrow> abort + heap \<times> addr list \<times> error option" where
  "renderTemplates r h templates = renderLoop r h [] templates"

section \<open>The unstructured converter\<close>

text \<open>
  A model of \<^verbatim>\<open>runtime.DefaultUnstructuredConverter\<close> at the type
  \<^verbatim>\<open>rbac/v1.ClusterRoleBinding\<close>. Decoding reads the fields of the typed struct from the
  map (a missing or nil field gives the zero value, a value of the wrong shape gives an
  error, unknown fields are ignored); encoding writes them back and leaves out the empty
  fields tagged \<open>omitempty\<close>. Of the object metadata the name, namespace, labels and
  annotations are kept.
\<close>

record ObjectMeta =
  omName :: string
  omNamespace :: string
  omLabels :: "(string \<times> string) list"
  omAnnotations :: "(string \<times> string) list"

definition ebind :: "error + 'a \<Rightarrow> ('a \<Rightarrow> error + 'b) \<Rightarrow> error + 'b" where
  "ebind x f = (case x of Inl e \<Rightarrow> Inl e | Inr v \<Rightarrow> f v)"

fun emapM :: "('a \<Rightarrow> error + 'b) \<Rightarrow> 'a list \<Rightarrow> error + 'b list" where
  "emapM f [] = Inr []"
| "emapM f (x # xs) = ebind (f x) (\<lambda>y. ebind (emapM f xs) (\<lambda>ys. Inr (y # ys)))"

fun stringFromUnstructured :: "gval option \<Rightarrow> error + string" where
  "stringFromUnstructured None = Inr []"
| "stringFromUnstructured (Some GNil) = Inr []"
| "stringFromUnstructured (Some (GString s)) = Inr s"
| "stringFromUnstructured (Some _) = Inl (ConvertError ''string'')"

fun stringMapFromUnstructured :: "gval option \<Rightarrow> error + (string \<times> string) list" where
  "stringMapFromUnstructured None = Inr []"
| "stringMapFromUnstructured (Some GNil) = Inr []"
| "stringMapFromUnstructured (Some (GStrMap m)) = Inr m"
| "stringMapFromUnstructured (Some (GMap m)) =
     emapM (\<lambda>kv. ebind (stringFromUnstructured (Some (snd kv))) (\<lambda>s. Inr (fst kv, s))) m"
| "stringMapFromUnstructured (Some _) = Inl (ConvertError ''map'')"

fun structFields :: "gval option \<Rightarrow> error + obj" where
  "structFields None = Inr []"
| "structFields (Some GNil) = Inr []"
| "structFields (Some (GMap m)) = Inr m"
| "structFields (Some (GStrMap m)) = Inr (map (\<lambda>kv. (fst kv, GString (snd kv))) m)"
| "structFields (Some _) = Inl (ConvertError ''struct'')"

definition subjectFromUnstructured :: "gval \<Rightarrow> error + Subject" where
  "subjectFromUnstructured v =
     ebind (structFields (Some v)) (\<lambda>m.
     ebind (stringFromUnstructured (map_of m ''kind'')) (\<lambda>k.
     ebind (stringFromUnstructured (map_of m ''apiGroup'')) (\<lambda>g.
     ebind (stringFromUnstructured (map_of m ''name'')) (\<lambda>n.
     ebind (stringFromUnstructured (map_of m ''namespace'')) (\<lambda>ns.
     Inr \<lparr>subjKind = k, subjAPIGroup = g, subjName = n, subjNamespace = ns\<rparr>)))))"

fun subjectsFromUnstructured :: "gval option \<Rightarrow> error + Subject list" where
  "subjectsFromUnstructured None = Inr []"
| "subjectsFromUnstructured (Some GNil) = Inr []"
| "subjectsFromUnstructured (Some (GList xs)) = emapM subjectFromUnstructured xs"
| "subjectsFromUnstructured (Some _) = Inl (ConvertError ''slice'')"

definition roleRefFromUnstructured :: "gval option \<Rightarrow> error + RoleRef" where
  "roleRefFromUnstructured v =
     ebind (structFields v) (\<lambda>m.
     ebind (stringFromUnstructured (map_of m ''apiGroup'')) (\<lambda>g.
     ebind (stringFromUnstructured (map_of m ''kind'')) (\<lambda>k.
     ebind (stringFromUnstructured (map_of m ''name'')) (\<lambda>n.
     Inr \<lparr>refAPIGroup = g, refKind = k, refName = n\<rparr>))))"

definition objectMetaFromUnstructured :: "gval option \<Rightarrow> error + ObjectMeta" where
  "objectMetaFromUnstructured v =
     ebind (structFields v) (\<lambda>m.
     ebind (stringFromUnstructured (map_of m ''name'')) (\<lambda>n.
     ebind (stringFromUnstructured (map_of m ''namespace'')) (\<lambda>ns.
     ebind (stringMapFromUnstructured (map_of m ''labels'')) (\<lambda>ls.
     ebind (stringMapFromUnstructured (map_of m ''annotations'')) (\<lambda>as.
     Inr \<lparr>omName = n, omNamespace = ns, omLabels = ls, omAnnotations = as\<rparr>)))))"

definition crbFromUnstructured :: "obj \<Rightarrow> error + ObjectMeta ClusterRoleBinding" where
  "crbFromUnstructured u =
     ebind (stringFromUnstructured (map_of u ''kind'')) (\<lambda>k.
     ebind (stringFromUnstructured (map_of u ''apiVersion'')) (\<lambda>av.
     ebind (objectMetaFromUnstructured (map_of u ''metadata'')) (\<lambda>om.
     ebind (subjectsFromUnstructured (map_of u ''subjects'')) (\<lambda>ss.
     ebind (roleRefFromUnstructured (map_of u ''roleRef'')) (\<lambda>rr.
     Inr \<lparr>crbKind = k, crbAPIVersion = av, crbObjectMeta = om, Subjects = ss,
          crbRoleRef = rr\<rparr>)))))"

definition omitempty :: "string \<Rightarrow> string \<Rightarrow> obj" where
  "omitempty field s = (if s = [] then [] else [(field, GString s)])"

definition omitemptyMap :: "string \<Rightarrow> (string \<times> string) list \<Rightarrow> obj" where
  "omitemptyMap field m =
     (if m = [] then [] else [(field, GMap (map (\<lambda>kv. (fst kv, GString (snd kv))) m))])"

definition subjectToUnstructured :: "Subject \<Rightarrow> gval" where
  "subjectToUnstructured s =
     GMap ([(''kind'', GString (subjKind s))] @ omitempty ''apiGroup'' (subjAPIGroup s) @
           [(''name'', GString (subjName s))] @ omitempty ''namespace'' (subjNamespace s))"

definition objectMetaToUnstructured :: "ObjectMeta \<Rightarrow> gval" where
  "objectMetaToUnstructured om =
     GMap (omitempty ''name'' (omName om) @ omitempty ''namespace'' (omNamespace om) @
           [(''creationTimestamp'', GNil)] @
           omitemptyMap ''labels'' (omLabels om) @
           omitemptyMap ''annotations'' (omAnnotations om))"

definition crbToUnstructured :: "ObjectMeta ClusterRoleBinding \<Rightarrow> error + obj" where
  "crbToUnstructured c =
     Inr (omitempty ''kind'' (crbKind c) @ omitempty ''apiVersion'' (crbAPIVersion c) @
          [(''metadata'', objectMetaToUnstructured (crbObjectMeta c))] @
          (if Subjects c = [] then []
           else [(''subjects'', GList (map subjectToUnstructured (Subjects c)))]) @
          [(''roleRef'', GMap [(''apiGroup'', GString (refAPIGroup (crbRoleRef c))),
                              (''kind'', GString (refKind (crbRoleRef c))),
                              (''name'', GString (refName (crbRoleRef c)))])])"

definition DefaultUnstructuredConverter :: "ObjectMeta converter" where
  "DefaultUnstructuredConverter =
     \<lparr>FromUnstructured = crbFromUnstructured, ToUnstructured = crbToUnstructured\<rparr>"

section \<open>templates.go\<close>

text \<open>
  A \<^verbatim>\<open>resmap.ResMap\<close> is the list of the resources it holds, each a pointer; the cache maps
  a key to one.
\<close>

record TemplateRenderer =
  templatesPath :: string
  templates :: "(string \<times> addr list) list"

text \<open>The package variables: the \<^verbatim>\<open>sync.Once\<close> (has it run?) and the singleton pointer.\<close>

record globals =
  loadTemplateRendererOnce :: bool
  templateRenderer :: "TemplateRenderer option"

text \<open>
  What lies outside the package variables: the heap of resources and the number of runs of
  the kustomize engine so far. The engine reads the file system, so its result may differ
  from run to run: \<open>engine n path\<close> is what run number \<open>n\<close> gives for \<open>path\<close>.
\<close>

record world =
  objects :: heap
  renders :: nat

type_synonym engine = "nat \<Rightarrow> string \<Rightarrow> error + obj list"

definition GetTemplateRenderer :: "(string \<Rightarrow> string option) \<Rightarrow> globals \<Rightarrow> abort + globals" where
  "GetTemplateRenderer env g =
     (if loadTemplateRendererOnce g then Inr g
      else (case env ''TEMPLATES_PATH'' of
              None \<Rightarrow> Inl FatalExit
            | Some path \<Rightarrow>
                Inr (g\<lparr>templateRenderer := Some \<lparr>templatesPath = path, templates = []\<rparr>,
                       loadTemplateRendererOnce := True\<rparr>)))"

text \<open>\<^verbatim>\<open>render\<close>: one run of the engine; the resources it yields are allocated on the heap.\<close>

definition render :: "engine \<Rightarrow> world \<Rightarrow> string \<Rightarrow> world \<times> (error + addr list)" where
  "render eng w kustomizationPath =
     (case eng (renders w) kustomizationPath of
        Inl err \<Rightarrow> (w\<lparr>renders := Suc (renders w)\<rparr>, Inl err)
      | Inr objs \<Rightarrow>
          (w\<lparr>renders := Suc (renders w), objects := objects w @ objs\<rparr>,
           Inr [length (objects w) ..< length (objects w) + length objs]))"

text \<open>\<^verbatim>\<open>path.Join\<close>, without the final cleaning of the path (the engine is any function of it).\<close>

fun pathJoin :: "string list \<Rightarrow> string" where
  "pathJoin [] = []"
| "pathJoin (e # es) =
     (if e = [] then pathJoin es
      else if pathJoin es = [] then e else e @ ''/'' @ pathJoin es)"

text \<open>
  \<^verbatim>\<open>GetTemplates\<close> on the receiver \<open>r\<close>; \<open>version\<close> is the constant \<^verbatim>\<open>version.Version\<close> of
  a package that is not among the sources. The result is Go's pair
  \<^verbatim>\<open>([]*resource.Resource, error)\<close>, with the updated receiver and world.
\<close>

definition GetTemplates ::
  "engine \<Rightarrow> string \<Rightarrow> TemplateRenderer \<Rightarrow> world
     \<Rightarrow> (TemplateRenderer \<times> world) \<times> (addr list \<times> error option)" where
  "GetTemplates eng version r w =
     (let kind = ''multiclusterhub'';
          key = kind @ ''-'' @ version
      in case map_of (templates r) key of
           Some resMap \<Rightarrow> ((r, w), (resMap, None))
         | None \<Rightarrow>
             (case render eng w (pathJoin [templatesPath r, kind, ''base'']) of
                (w1, Inl err) \<Rightarrow> ((r, w1), ([], Some err))
              | (w1, Inr resMap) \<Rightarrow>
                  ((r\<lparr>templates := AList.update key resMap (templates r)\<rparr>, w1),
                   (resMap, None))))"

text \<open>\<^verbatim>\<open>Render\<close>; the client argument is not used by the body.\<close>

definition Render ::
  "engine \<Rightarrow> (string \<Rightarrow> string option) \<Rightarrow> string \<Rightarrow> Renderer \<Rightarrow> globals \<times> world
     \<Rightarrow> abort + (globals \<times> world) \<times> (addr list \<times> error option)" where
  "Render eng env version r gw =
     (case GetTemplateRenderer env (fst gw) of
        Inl a \<Rightarrow> Inl a
      | Inr g1 \<Rightarrow>
          (case templateRenderer g1 of
             None \<Rightarrow> Inl PanicNilPointer
           | Some tr \<Rightarrow>
               (case GetTemplates eng version tr (snd gw) of
                  ((tr', w1), (tmpls, err)) \<Rightarrow>
                    (let g2 = g1\<lparr>templateRenderer := Some tr'\<rparr> in
                     case err of
                       Some e \<Rightarrow> Inr ((g2, w1), ([], Some e))
                     | None \<Rightarrow>
                         (case renderTemplates r (objects w1) tmpls of
                            Inl a \<Rightarrow> Inl a
                          | Inr (h2, resources, err2) \<Rightarrow>
                              (case err2 of
                                 Some e \<Rightarrow> Inr ((g2, w1\<lparr>objects := h2\<rparr>), ([], Some e))
                               | None \<Rightarrow> Inr ((g2, w1\<lparr>objects := h2\<rparr>), (resources, None))))))))"

section \<open>Notions used in the statements\<close>

text \<open>\<open>n\<close> calls of \<^verbatim>\<open>GetTemplates\<close> one after the other, with the result of each.\<close>

fun GetTemplatesN ::
  "engine \<Rightarrow> string \<Rightarrow> nat \<Rightarrow> TemplateRenderer \<Rightarrow> world
     \<Rightarrow> (TemplateRenderer \<times> world) \<times> (addr list \<times> error option) list" where
  "GetTemplatesN eng version 0 r w = ((r, w), [])"
| "GetTemplatesN eng version (Suc n) r w =
     (case GetTemplates eng version r w of
        ((r1, w1), res) \<Rightarrow>
          (case GetTemplatesN eng version n r1 w1 of
             ((r2, w2), rest) \<Rightarrow> ((r2, w2), res # rest)))"

text \<open>The namespace of the first entry of \<open>subjects\<close>, read from the unstructured form
  (\<open>""\<close> when the entry has none).\<close>

definition firstSubjectNamespace :: "obj \<Rightarrow> string option" where
  "firstSubjectNamespace u =
     (case map_of u ''subjects'' of
        Some (GList (GMap s # rest)) \<Rightarrow> Some (getNestedString s [''namespace''])
      | _ \<Rightarrow> None)"

text \<open>
  The metadata of the object is absent or an object of its own, as for every resource the
  kustomize engine loads (it insists on \<open>metadata.name\<close>).
\<close>

definition metadataIsObject :: "obj \<Rightarrow> bool" where
  "metadataIsObject u =
     (case map_of u ''metadata'' of None \<Rightarrow> True | Some (GMap m) \<Rightarrow> True | Some _ \<Rightarrow> False)"

text \<open>
  A renderer is confined when each of its render functions only grows the heap, writes to
  no existing object other than the resource it is given, and returns an object whenever it
  returns no error.
\<close>

definition confined :: "Renderer \<Rightarrow> bool" where
  "confined r =
     (\<forall>k f h a h' u e. renderFns r k = Some f \<longrightarrow> a < length h \<longrightarrow> f h a = Inr (h', u, e) \<longrightarrow>
        length h \<le> length h' \<and> (\<forall>b < length h. b \<noteq> a \<longrightarrow> h' ! b = h ! b) \<and>
        (e = None \<longrightarrow> u \<noteq> None))"

subsection \<open>Example resources\<close>

definition exHub :: MultiClusterHub where
  "exHub = \<lparr>mchName = ''hub'', mchNamespace = ''ns-a''\<rparr>"

definition exDeployment :: "gval \<Rightarrow> obj" where
  "exDeployment annotations =
     [(''kind'', GString ''Deployment''),
      (''metadata'', GMap [(''name'', GString ''console''), (''namespace'', GString ''orig''),
                          (''annotations'', annotations)])]"

definition exBinding :: "string \<Rightarrow> obj" where
  "exBinding k =
     [(''kind'', GString ''ClusterRoleBinding''),
      (''metadata'', GMap [(''name'', GString ''binding'')]),
      (''subjects'', GList [GMap [(''kind'', GString k), (''name'', GString ''sa''),
                                  (''namespace'', GString ''orig'')]]),
      (''roleRef'', GMap [(''kind'', GString ''ClusterRole''), (''name'', GString ''admin'')])]"

definition exBadBinding :: obj where
  "exBadBinding =
     [(''kind'', GString ''ClusterRoleBinding''),
      (''metadata'', GMap [(''name'', GString ''bad'')]),
      (''subjects'', GString ''nobody'')]"

definition exOther :: obj where
  "exOther = [(''kind'', GString ''Secret''), (''metadata'', GMap [(''name'', GString ''s'')])]"

text \<open>An engine whose first run fails and whose later runs load one resource.\<close>

definition exEngine :: engine where
  "exEngine n path = (if n = 0 then Inl (LoadError path) else Inr [exOther])"

definition exCache :: TemplateRenderer where
  "exCache = \<lparr>templatesPath = ''/templates'', templates = []\<rparr>"

definition exWorld :: world where
  "exWorld = \<lparr>objects = [], renders = 0\<rparr>"

text \<open>The typed form of \<open>exBinding k\<close> once labelled for \<open>exHub\<close>.\<close>

definition exTypedBinding :: "string \<Rightarrow> ObjectMeta ClusterRoleBinding" where
  "exTypedBinding k =
     \<lparr>crbKind = ''ClusterRoleBinding'', crbAPIVersion = [],
      crbObjectMeta = \<lparr>omName = ''binding'', omNamespace = [],
         omLabels = [(''installer.name'', ''hub''), (''installer.namespace'', ''ns-a'')],
         omAnnotations = []\<rparr>,
      Subjects = [\<lparr>subjKind = k, subjAPIGroup = [], subjName = ''sa'',
                   subjNamespace = ''orig''\<rparr>],
      crbRoleRef = \<lparr>refAPIGroup = [], refKind = ''ClusterRole'', refName = ''admin''\<rparr>\<rparr>"

text \<open>What the renderer makes of \<open>exBinding ''ServiceAccount''\<close> for \<open>exHub\<close>.\<close>

definition exRenderedBinding :: obj where
  "exRenderedBinding =
     [(''kind'', GString ''ClusterRoleBinding''),
      (''metadata'', GMap [(''name'', GString ''binding''), (''creationTimestamp'', GNil),
         (''labels'', GMap [(''installer.name'', GString ''hub''),
                            (''installer.namespace'', GString ''ns-a'')])]),
      (''subjects'', GList [GMap [(''kind'', GString ''ServiceAccount''),
                                  (''name'', GString ''sa''), (''namespace'', GString ''ns-a'')]]),
      (''roleRef'', GMap [(''apiGroup'', GString []), (''kind'', GString ''ClusterRole''),
                          (''name'', GString ''admin'')])]"

section \<open>Properties of the library operations\<close>

lemma setNestedField2_other:
  "k \<noteq> f1 \<Longrightarrow> map_of (setNestedField u v [f1, f2]) k = map_of u k"
  by (simp add: update_conv' split: option.splits gval.splits)

lemma AddInstallerLabel_other:
  "k \<noteq> ''metadata'' \<Longrightarrow> map_of (AddInstallerLabel u n ns) k = map_of u k"
  unfolding AddInstallerLabel_def SetLabels_def by (rule setNestedField2_other)

lemma UpdateNamespace_AddInstallerLabel:
  "UpdateNamespace (AddInstallerLabel u n ns) = UpdateNamespace u"
  by (simp add: AddInstallerLabel_def SetLabels_def UpdateNamespace_def update_conv'
      split: option.splits gval.splits)

lemma SetLabels_metadata:
  assumes "metadataIsObject u"
  shows "\<exists>m'. map_of (SetLabels ls u) ''metadata'' = Some (GMap m') \<and>
              map_of m' ''labels'' = Some (GMap (map (\<lambda>kv. (fst kv, GString (snd kv))) ls))"
  using assms
  by (auto simp: SetLabels_def metadataIsObject_def update_conv' split: option.splits gval.splits)

lemma installer_labels:
  "map_of (AList.update ''installer.namespace'' ns (AList.update ''installer.name'' n ls))
     ''installer.name'' = Some n"
  "map_of (AList.update ''installer.namespace'' ns (AList.update ''installer.name'' n ls))
     ''installer.namespace'' = Some ns"
  by (simp_all add: update_conv')

text \<open>Whatever can be deep-copied has no \<^verbatim>\<open>map[string]string\<close> inside, so the annotation
  is never read from it and \<^verbatim>\<open>UpdateNamespace\<close> answers with its default.\<close>

lemma jsonShaped_lookup:
  "jsonShaped (GMap m) \<Longrightarrow> map_of m k = Some v \<Longrightarrow> jsonShaped v"
  by (auto dest!: map_of_SomeD intro: rev_image_eqI)

lemma jsonShaped_UpdateNamespace:
  assumes "jsonShaped (GMap u)"
  shows "UpdateNamespace u"
proof (cases "map_of u ''metadata''")
  case None
  then show ?thesis by (simp add: UpdateNamespace_def)
next
  case (Some md)
  with assms have md: "jsonShaped md" by (rule jsonShaped_lookup)
  show ?thesis
  proof (cases md)
    case (GMap metadata)
    show ?thesis
    proof (cases "map_of metadata ''annotations''")
      case None
      with Some GMap show ?thesis by (simp add: UpdateNamespace_def)
    next
      case (Some a)
      with md GMap have "jsonShaped a" by (auto intro: jsonShaped_lookup)
      then have "\<forall>anns. a \<noteq> GStrMap anns" by auto
      with \<open>map_of u ''metadata'' = Some md\<close> GMap Some show ?thesis
        by (cases a) (simp_all add: UpdateNamespace_def)
    qed
  qed (use Some in \<open>simp_all add: UpdateNamespace_def\<close>)
qed

section \<open>Properties of the typed conversion\<close>

lemma stringMap_roundtrip:
  "stringMapFromUnstructured (Some (GMap (map (\<lambda>kv. (fst kv, GString (snd kv))) ls))) = Inr ls"
  by (induction ls) (auto simp: ebind_def)

lemma decoded_labels:
  assumes "crbFromUnstructured u = Inr c"
    and "map_of u ''metadata'' = Some (GMap m')"
    and "map_of m' ''labels'' = Some (GMap (map (\<lambda>kv. (fst kv, GString (snd kv))) ls))"
  shows "omLabels (crbObjectMeta c) = ls"
proof -
  from assms(1,2) obtain om where om: "objectMetaFromUnstructured (Some (GMap m')) = Inr om"
    and c: "crbObjectMeta c = om"
    by (auto simp: crbFromUnstructured_def ebind_def split: sum.splits)
  from om assms(3)
  have "stringMapFromUnstructured (Some (GMap (map (\<lambda>kv. (fst kv, GString (snd kv))) ls)))
          = Inr (omLabels om)"
    by (auto simp: objectMetaFromUnstructured_def ebind_def split: sum.splits)
  with stringMap_roundtrip [of ls] c show ?thesis
    by (simp del: stringMapFromUnstructured.simps)
qed

lemma strings_all:
  "list_all (\<lambda>kv. isGString (snd kv)) (map (\<lambda>kv. (fst kv, GString (snd kv))) ls)"
  by (induction ls) auto

lemma strings_back:
  "map (\<lambda>kv. (fst kv, strOf (snd kv))) (map (\<lambda>kv. (fst kv, GString (snd kv))) ls) = ls"
  by (induction ls) auto

lemma encoded_labels:
  assumes "crbToUnstructured c = Inr out" and "omLabels (crbObjectMeta c) \<noteq> []"
  shows "GetLabels out = omLabels (crbObjectMeta c)"
proof -
  have nf: "NestedFieldNoCopy out [''metadata'', ''labels'']
            = Some (GMap (map (\<lambda>kv. (fst kv, GString (snd kv))) (omLabels (crbObjectMeta c))))"
    using assms
    by (auto simp: crbToUnstructured_def objectMetaToUnstructured_def omitempty_def
        omitemptyMap_def)
  show ?thesis
    unfolding GetLabels_def NestedStringMap_def nf
    by (simp add: strings_all strings_back del: map_map)
qed

lemma encoded_first_subject:
  assumes "crbToUnstructured c = Inr out" and "Subjects c = s # rest"
  shows "firstSubjectNamespace out = Some (subjNamespace s)"
proof -
  from assms have "map_of out ''subjects'' = Some (GList (map subjectToUnstructured (s # rest)))"
    by (auto simp: crbToUnstructured_def omitempty_def)
  then show ?thesis
    by (simp add: firstSubjectNamespace_def subjectToUnstructured_def getNestedString_def
        omitempty_def)
qed

section \<open>Properties of the render functions and of the loop\<close>

lemma renderNamespace_confined:
  "renderNamespace mch h a = Inr (h', u, e) \<Longrightarrow>
   length h \<le> length h' \<and> (\<forall>b < length h. b \<noteq> a \<longrightarrow> h' ! b = h ! b) \<and> (e = None \<longrightarrow> u \<noteq> None)"
  by (auto simp: renderNamespace_def Let_def split: if_splits)

lemma renderClusterRole_confined:
  "renderClusterRole mch h a = Inr (h', u, e) \<Longrightarrow>
   length h \<le> length h' \<and> (\<forall>b < length h. b \<noteq> a \<longrightarrow> h' ! b = h ! b) \<and> (e = None \<longrightarrow> u \<noteq> None)"
  by (auto simp: renderClusterRole_def)

lemma renderCRD_confined:
  "renderCRD mch h a = Inr (h', u, e) \<Longrightarrow>
   length h \<le> length h' \<and> (\<forall>b < length h. b \<noteq> a \<longrightarrow> h' ! b = h ! b) \<and> (e = None \<longrightarrow> u \<noteq> None)"
  by (auto simp: renderCRD_def)

lemma renderClusterRoleBinding_confined:
  "renderClusterRoleBinding conv mch h a = Inr (h', u, e) \<Longrightarrow>
   length h \<le> length h' \<and> (\<forall>b < length h. b \<noteq> a \<longrightarrow> h' ! b = h ! b) \<and> (e = None \<longrightarrow> u \<noteq> None)"
  by (auto simp: renderClusterRoleBinding_def Let_def alloc_def nth_append
      split: sum.splits list.splits if_splits)

lemma NewRenderer_cases:
  assumes "renderFns (NewRenderer conv mch) k = Some f"
  shows "f = renderNamespace mch \<or> f = renderClusterRoleBinding conv mch \<or>
         f = renderClusterRole mch \<or> f = renderCRD mch"
  using assms by (auto simp: NewRenderer_def split: if_splits)

lemma NewRenderer_confined: "confined (NewRenderer conv mch)"
  unfolding confined_def
proof (intro allI impI)
  fix k f h a h' u e
  assume k: "renderFns (NewRenderer conv mch) k = Some f" and "a < length h"
    and f: "f h a = Inr (h', u, e)"
  from NewRenderer_cases [OF k] f
  show "length h \<le> length h' \<and> (\<forall>b < length h. b \<noteq> a \<longrightarrow> h' ! b = h ! b) \<and>
        (e = None \<longrightarrow> u \<noteq> None)"
    using renderNamespace_confined renderClusterRole_confined renderCRD_confined
      renderClusterRoleBinding_confined by metis
qed

lemma renderLoop_append:
  "renderLoop r h acc (pre @ rest) =
     (case renderLoop r h acc pre of
        Inl p \<Rightarrow> Inl p
      | Inr (h1, acc1, None) \<Rightarrow> renderLoop r h1 acc1 rest
      | Inr (h1, acc1, Some e) \<Rightarrow> Inr (h1, acc1, Some e))"
  by (induction pre arbitrary: h acc) (auto split: option.splits sum.splits prod.splits)

text \<open>An error never comes with resources, and a run over unregistered kinds always returns.\<close>

lemma renderLoop_error_empty:
  "renderLoop r h acc ts = Inr (h', out, Some e) \<Longrightarrow> out = []"
  by (induction ts arbitrary: h acc) (auto split: option.splits sum.splits prod.splits)

lemma renderLoop_unregistered:
  "\<forall>t \<in> set ts. renderFns r (GetKind (h ! t)) = None \<Longrightarrow>
   renderLoop r h acc ts = Inr (h, acc @ ts, None)"
  by (induction ts arbitrary: acc) auto

lemma DeepCopy_Inr:
  "DeepCopy h t = Inr (h1, c) \<Longrightarrow> h1 = h @ [h ! t] \<and> c = length h"
  by (auto simp: DeepCopy_def alloc_def split: if_splits)

lemma renderLoop_frame:
  assumes "confined r"
  shows "\<forall>t \<in> set ts. t < length h \<Longrightarrow> renderLoop r h acc ts = Inr (h', out, err) \<Longrightarrow>
         length h \<le> length h' \<and> (\<forall>b < length h. h' ! b = h ! b)"
proof (induction ts arbitrary: h acc)
  case Nil
  then show ?case by simp
next
  case (Cons t ts)
  show ?case
  proof (cases "renderFns r (GetKind (h ! t))")
    case None
    with Cons.prems have "renderLoop r h (acc @ [t]) ts = Inr (h', out, err)" by simp
    with Cons.IH [of h "acc @ [t]"] Cons.prems(1) show ?thesis by simp
  next
    case (Some f)
    with Cons.prems(2) obtain h1 c where dc: "DeepCopy h t = Inr (h1, c)"
      by (auto split: sum.splits)
    then have h1: "h1 = h @ [h ! t]" and c: "c = length h" using DeepCopy_Inr by auto
    from Cons.prems(2) Some dc obtain h2 uobj e where f: "f h1 c = Inr (h2, uobj, e)"
      by (auto split: sum.splits)
    have "c < length h1" using h1 c by simp
    with assms Some f have step: "length h1 \<le> length h2"
      "\<forall>b < length h1. b \<noteq> c \<longrightarrow> h2 ! b = h1 ! b"
      unfolding confined_def by blast+
    have pres: "length h \<le> length h2 \<and> (\<forall>b < length h. h2 ! b = h ! b)"
      using step h1 c by (auto simp: nth_append)
    show ?thesis
    proof (cases e)
      case (Some e')
      with Cons.prems(2) \<open>renderFns r (GetKind (h ! t)) = Some f\<close> dc f have "h' = h2" by simp
      with pres show ?thesis by simp
    next
      case None
      from Cons.prems(1) pres have valid: "\<forall>t \<in> set ts. t < length h2" by auto
      from None Cons.prems(2) \<open>renderFns r (GetKind (h ! t)) = Some f\<close> dc f
      obtain acc' where "renderLoop r h2 acc' ts = Inr (h', out, err)"
        by (auto split: option.splits)
      from Cons.IH [OF valid this] pres show ?thesis by auto
    qed
  qed
qed

lemma renderLoop_positions:
  assumes "confined r"
  shows "\<forall>t \<in> set ts. t < length h \<Longrightarrow> renderLoop r h acc ts = Inr (h', out, None) \<Longrightarrow>
         \<exists>out'. out = acc @ out' \<and> length out' = length ts \<and>
           (\<forall>i < length ts. renderFns r (GetKind (h ! (ts ! i))) = None \<longrightarrow> out' ! i = ts ! i)"
proof (induction ts arbitrary: h acc)
  case Nil
  then show ?case by simp
next
  case (Cons t ts)
  show ?case
  proof (cases "renderFns r (GetKind (h ! t))")
    case None
    with Cons.prems have run: "renderLoop r h (acc @ [t]) ts = Inr (h', out, None)" by simp
    from Cons.prems(1) have "\<forall>t \<in> set ts. t < length h" by simp
    from Cons.IH [OF this run] obtain out' where o: "out = (acc @ [t]) @ out'"
      "length out' = length ts"
      "\<forall>i < length ts. renderFns r (GetKind (h ! (ts ! i))) = None \<longrightarrow> out' ! i = ts ! i"
      by blast
    have "\<forall>i < length (t # ts). renderFns r (GetKind (h ! ((t # ts) ! i))) = None \<longrightarrow>
            (t # out') ! i = (t # ts) ! i"
      using o(3) by (auto simp: nth_Cons split: nat.splits)
    with o(1,2) show ?thesis by (intro exI [of _ "t # out'"]) simp
  next
    case (Some f)
    with Cons.prems(2) obtain h1 c where dc: "DeepCopy h t = Inr (h1, c)"
      by (auto split: sum.splits)
    then have h1: "h1 = h @ [h ! t]" and c: "c = length h" using DeepCopy_Inr by auto
    from Cons.prems(2) Some dc obtain h2 uobj e where f: "f h1 c = Inr (h2, uobj, e)"
      by (auto split: sum.splits)
    have "c < length h1" using h1 c by simp
    with assms Some f have step: "length h1 \<le> length h2"
      "\<forall>b < length h1. b \<noteq> c \<longrightarrow> h2 ! b = h1 ! b" "e = None \<longrightarrow> uobj \<noteq> None"
      unfolding confined_def by blast+
    have pres: "length h \<le> length h2" "\<forall>b < length h. h2 ! b = h ! b"
      using step h1 c by (auto simp: nth_append)
    from Cons.prems(2) Some dc f have e: "e = None"
      by (cases e) auto
    with step(3) obtain u where u: "uobj = Some u" by auto
    from Cons.prems(1) pres have valid: "\<forall>t \<in> set ts. t < length h2" by auto
    from e u Cons.prems(2) Some dc f
    have run: "renderLoop r h2 (acc @ [u]) ts = Inr (h', out, None)" by simp
    from Cons.IH [OF valid run] obtain out' where o: "out = (acc @ [u]) @ out'"
      "length out' = length ts"
      "\<forall>i < length ts. renderFns r (GetKind (h2 ! (ts ! i))) = None \<longrightarrow> out' ! i = ts ! i"
      by blast
    have same: "\<forall>i < length ts. h2 ! (ts ! i) = h ! (ts ! i)"
      using pres(2) Cons.prems(1) by simp
    have "\<forall>i < length (t # ts). renderFns r (GetKind (h ! ((t # ts) ! i))) = None \<longrightarrow>
            (u # out') ! i = (t # ts) ! i"
      using o(3) same Some by (auto simp: nth_Cons split: nat.splits)
    with o(1,2) show ?thesis by (intro exI [of _ "u # out'"]) simp
  qed
qed

section \<open>Properties of the template cache\<close>

lemma GetTemplates_hit:
  "map_of (templates r) (''multiclusterhub-'' @ version) = Some rs \<Longrightarrow>
   GetTemplates eng version r w = ((r, w), (rs, None))"
  by (simp add: GetTemplates_def)

lemma GetTemplatesN_hit:
  "map_of (templates r) (''multiclusterhub-'' @ version) = Some rs \<Longrightarrow>
   GetTemplatesN eng version n r w = ((r, w), replicate n (rs, None))"
  by (induction n) (simp_all add: GetTemplates_hit replicate_app_Cons_same)

lemma GetTemplates_miss:
  assumes "map_of (templates r) (''multiclusterhub-'' @ version) = None"
    and "GetTemplates eng version r w = ((r1, w1), (rs, e))"
  shows "renders w1 = Suc (renders w) \<and>
         (case e of
            Some err \<Rightarrow> r1 = r \<and> rs = []
          | None \<Rightarrow> map_of (templates r1) (''multiclusterhub-'' @ version) = Some rs)"
  using assms
  by (auto simp: GetTemplates_def Let_def render_def update_conv' simp del: pathJoin.simps
      split: sum.splits)

section \<open>Evaluation of the examples\<close>

lemma ex_kinds:
  "GetKind exOther = ''Secret''" "GetKind (exBinding k) = ''ClusterRoleBinding''"
  "GetKind exBadBinding = ''ClusterRoleBinding''" "GetKind (exDeployment a) = ''Deployment''"
  by (simp_all add: GetKind_def getNestedString_def exOther_def exBinding_def exBadBinding_def
      exDeployment_def)

lemma ex_fns:
  "renderFns (NewRenderer conv mch) ''Secret'' = None"
  "renderFns (NewRenderer conv mch) ''ClusterRoleBinding'' = Some (renderClusterRoleBinding conv mch)"
  "renderFns (NewRenderer conv mch) ''Deployment'' = Some (renderNamespace mch)"
  by (simp_all add: NewRenderer_def)

lemma ex_jsonShaped:
  "jsonShaped (GMap exOther)" "jsonShaped (GMap (exBinding k))" "jsonShaped (GMap exBadBinding)"
  "jsonShaped (GMap (exDeployment (GMap [(''update-namespace'', GString ''false'')])))"
  by (simp_all add: exOther_def exBinding_def exBadBinding_def exDeployment_def)

lemma ex_labelled_binding:
  "AddInstallerLabel (exBinding k) ''hub'' ''ns-a'' =
     [(''kind'', GString ''ClusterRoleBinding''),
      (''metadata'', GMap [(''name'', GString ''binding''),
         (''labels'', GMap [(''installer.name'', GString ''hub''),
                            (''installer.namespace'', GString ''ns-a'')])]),
      (''subjects'', GList [GMap [(''kind'', GString k), (''name'', GString ''sa''),
                                  (''namespace'', GString ''orig'')]]),
      (''roleRef'', GMap [(''kind'', GString ''ClusterRole''), (''name'', GString ''admin'')])]"
  by (simp add: AddInstallerLabel_def SetLabels_def GetLabels_def NestedStringMap_def
      exBinding_def)

lemma ex_decoded_binding:
  "crbFromUnstructured (AddInstallerLabel (exBinding k) ''hub'' ''ns-a'') = Inr (exTypedBinding k)"
  unfolding ex_labelled_binding
  by (simp add: crbFromUnstructured_def objectMetaFromUnstructured_def
      subjectFromUnstructured_def roleRefFromUnstructured_def ebind_def exTypedBinding_def)

lemma ex_subjects:
  "firstSubjectNamespace (exBinding k) = Some ''orig''"
  "firstSubjectNamespace (AddInstallerLabel (exBinding k) ''hub'' ''ns-a'') = Some ''orig''"
  "firstSubjectNamespace exRenderedBinding = Some ''ns-a''"
  unfolding ex_labelled_binding
  by (simp_all add: firstSubjectNamespace_def getNestedString_def exBinding_def
      exRenderedBinding_def)

lemma ex_labels:
  "GetLabels exRenderedBinding
     = [(''installer.name'', ''hub''), (''installer.namespace'', ''ns-a'')]"
  by (simp add: GetLabels_def NestedStringMap_def exRenderedBinding_def)

lemma ex_bad_binding:
  "crbFromUnstructured (AddInstallerLabel exBadBinding ''hub'' ''ns-a'')
     = Inl (ConvertError ''slice'')"
  by (simp add: AddInstallerLabel_def SetLabels_def GetLabels_def NestedStringMap_def
      exBadBinding_def crbFromUnstructured_def objectMetaFromUnstructured_def ebind_def)

lemma ex_render_binding:
  "renderClusterRoleBinding DefaultUnstructuredConverter exHub (h @ [exBinding ''ServiceAccount''])
     (length h)
   = Inr (h @ [AddInstallerLabel (exBinding ''ServiceAccount'') ''hub'' ''ns-a'',
               exRenderedBinding], Some (Suc (length h)), None)"
proof -
  have "UpdateNamespace (exBinding ''ServiceAccount'')"
    by (rule jsonShaped_UpdateNamespace) (rule ex_jsonShaped)
  then show ?thesis
    by (simp add: renderClusterRoleBinding_def DefaultUnstructuredConverter_def exHub_def
        ex_decoded_binding UpdateNamespace_AddInstallerLabel crbToUnstructured_def
        objectMetaToUnstructured_def subjectToUnstructured_def omitempty_def omitemptyMap_def
        alloc_def exRenderedBinding_def exTypedBinding_def)
qed

lemma ex_render_group:
  "renderClusterRoleBinding DefaultUnstructuredConverter exHub (h @ [exBinding ''Group''])
     (length h)
   = Inr (h @ [AddInstallerLabel (exBinding ''Group'') ''hub'' ''ns-a''], Some (length h), None)"
  by (simp add: renderClusterRoleBinding_def DefaultUnstructuredConverter_def exHub_def
      ex_decoded_binding exTypedBinding_def)

lemma ex_render_bad:
  "renderClusterRoleBinding DefaultUnstructuredConverter exHub (h @ [exBadBinding]) (length h)
   = Inr (h @ [AddInstallerLabel exBadBinding ''hub'' ''ns-a''], None,
          Some (ConvertError ''slice''))"
  by (simp add: renderClusterRoleBinding_def DefaultUnstructuredConverter_def exHub_def
      ex_bad_binding)

section \<open>The claims\<close>

subsection \<open>The template cache\<close>

text \<open>
  Claim C1. For the cache key of a version, calling \<^verbatim>\<open>GetTemplates\<close> repeatedly, one call
  after the other, returns the same stored resource collection each time, and the
  materialization step runs at most once: on a cache hit the stored collection is returned
  and nothing is rendered again.

  For any number \<open>n\<close> of calls from any state: every call that returns a collection returns
  the one stored under the key; apart from the runs that failed (a failed call is one run and
  stores nothing), the engine runs at most once; and if the key is stored when the calls
  start, every call returns the stored collection and the receiver and the world (so the
  count of runs too) stay as they were.
\<close>

theorem GetTemplates_idempotent:
  assumes "GetTemplatesN eng version n r w = ((r', w'), results)"
  shows "(\<forall>i < n. snd (results ! i) = None \<longrightarrow>
            map_of (templates r') (''multiclusterhub-'' @ version) = Some (fst (results ! i))) \<and>
         renders w' \<le> renders w + length (filter (\<lambda>x. snd x \<noteq> None) results) + 1 \<and>
         (\<forall>rs. map_of (templates r) (''multiclusterhub-'' @ version) = Some rs \<longrightarrow>
            r' = r \<and> w' = w \<and> results = replicate n (rs, None))"
  using assms
proof (induction n arbitrary: r w r' w' results)
  case 0
  then show ?case by simp
next
  case (Suc n)
  show ?case
  proof (cases "map_of (templates r) (''multiclusterhub-'' @ version)")
    case (Some rs)
    from GetTemplatesN_hit [OF Some, of eng "Suc n" w] Suc.prems
    have "r' = r" "w' = w" "results = replicate (Suc n) (rs, None)" by simp_all
    with Some show ?thesis by (auto simp: nth_Cons split: nat.splits)
  next
    case None
    obtain r1 w1 rs e where first: "GetTemplates eng version r w = ((r1, w1), (rs, e))"
      by (metis prod.exhaust)
    obtain r2 w2 rest where rest: "GetTemplatesN eng version n r1 w1 = ((r2, w2), rest)"
      by (metis prod.exhaust)
    from Suc.prems first rest have eq: "r' = r2" "w' = w2" "results = (rs, e) # rest"
      by simp_all
    from GetTemplates_miss [OF None first] have step: "renders w1 = Suc (renders w)"
      "case e of Some err \<Rightarrow> r1 = r \<and> rs = []
         | None \<Rightarrow> map_of (templates r1) (''multiclusterhub-'' @ version) = Some rs"
      by simp_all
    show ?thesis
    proof (cases e)
      case (Some err)
      from Suc.IH [OF rest] have ih:
        "\<forall>i < n. snd (rest ! i) = None \<longrightarrow>
            map_of (templates r2) (''multiclusterhub-'' @ version) = Some (fst (rest ! i))"
        "renders w2 \<le> renders w1 + length (filter (\<lambda>x. snd x \<noteq> None) rest) + 1"
        by simp_all
      have "\<forall>i < Suc n. snd (((rs, e) # rest) ! i) = None \<longrightarrow>
              map_of (templates r2) (''multiclusterhub-'' @ version)
                = Some (fst (((rs, e) # rest) ! i))"
        using ih(1) Some by (auto simp: nth_Cons split: nat.splits)
      with ih(2) step(1) Some None eq show ?thesis by simp
    next
      case none: None
      with step(2) have stored: "map_of (templates r1) (''multiclusterhub-'' @ version) = Some rs"
        by simp
      from GetTemplatesN_hit [OF stored, of eng n w1] rest
      have "r2 = r1" "w2 = w1" "rest = replicate n (rs, None)" by simp_all
      with eq none stored step(1) None show ?thesis
        by (auto simp: nth_Cons split: nat.splits)
    qed
  qed
qed

theorem GetTemplates_idempotent_witness:
  "GetTemplatesN exEngine ''2.0.0'' (Suc (Suc (Suc 0))) exCache exWorld
     = ((\<lparr>templatesPath = ''/templates'', templates = [(''multiclusterhub-2.0.0'', [0])]\<rparr>,
         \<lparr>objects = [exOther], renders = 2\<rparr>),
        [([], Some (LoadError ''/templates/multiclusterhub/base'')), ([0], None), ([0], None)]) \<and>
   renders \<lparr>objects = [exOther], renders = 2\<rparr>
     \<le> renders exWorld
         + length (filter (\<lambda>x. snd x \<noteq> None)
             [([], Some (LoadError ''/templates/multiclusterhub/base'')), ([0], None),
              ([0::nat], None)]) + 1"
proof -
  have run: "GetTemplatesN exEngine ''2.0.0'' (Suc (Suc (Suc 0))) exCache exWorld
     = ((\<lparr>templatesPath = ''/templates'', templates = [(''multiclusterhub-2.0.0'', [0])]\<rparr>,
         \<lparr>objects = [exOther], renders = 2\<rparr>),
        [([], Some (LoadError ''/templates/multiclusterhub/base'')), ([0], None), ([0], None)])"
    by (simp add: GetTemplates_def render_def exEngine_def exCache_def exWorld_def upt_rec)
  from GetTemplates_idempotent [OF run] run show ?thesis by simp
qed

text \<open>
  Claim C7. When the materialization fails for a key, \<^verbatim>\<open>GetTemplates\<close> hands the error on
  and stores nothing under the key (the cache map is as before), so that a later call with
  the same key attempts the materialization again.

  On a miss with a failing run of the engine the call returns that error and no resources,
  the receiver is unchanged and one run is counted; the next call runs the engine again
  (the count of runs goes up once more), and returns what that run loads if it succeeds.
\<close>

theorem GetTemplates_failure_not_cached:
  assumes miss: "map_of (templates r) (''multiclusterhub-'' @ version) = None"
    and fail: "eng (renders w) (pathJoin [templatesPath r, ''multiclusterhub'', ''base'']) = Inl err"
  shows "GetTemplates eng version r w = ((r, w\<lparr>renders := Suc (renders w)\<rparr>), ([], Some err)) \<and>
         renders (snd (fst (GetTemplates eng version r (w\<lparr>renders := Suc (renders w)\<rparr>))))
           = Suc (Suc (renders w)) \<and>
         (\<forall>objs. eng (Suc (renders w)) (pathJoin [templatesPath r, ''multiclusterhub'', ''base''])
                   = Inr objs \<longrightarrow>
            snd (GetTemplates eng version r (w\<lparr>renders := Suc (renders w)\<rparr>))
              = ([length (objects w) ..< length (objects w) + length objs], None))"
  using assms
  by (auto simp: GetTemplates_def Let_def render_def simp del: pathJoin.simps split: sum.splits)

theorem GetTemplates_failure_not_cached_witness:
  "map_of (templates exCache) (''multiclusterhub-'' @ ''2.0.0'') = None \<and>
   exEngine (renders exWorld) (pathJoin [templatesPath exCache, ''multiclusterhub'', ''base''])
     = Inl (LoadError ''/templates/multiclusterhub/base'') \<and>
   GetTemplates exEngine ''2.0.0'' exCache exWorld
     = ((exCache, \<lparr>objects = [], renders = 1\<rparr>),
        ([], Some (LoadError ''/templates/multiclusterhub/base''))) \<and>
   snd (GetTemplates exEngine ''2.0.0'' exCache \<lparr>objects = [], renders = 1\<rparr>) = ([0], None)"
proof -
  have miss: "map_of (templates exCache) (''multiclusterhub-'' @ ''2.0.0'') = None"
    by (simp add: exCache_def)
  have fail: "exEngine (renders exWorld)
      (pathJoin [templatesPath exCache, ''multiclusterhub'', ''base''])
      = Inl (LoadError ''/templates/multiclusterhub/base'')"
    by (simp add: exEngine_def exCache_def exWorld_def)
  have again: "exEngine (Suc (renders exWorld))
      (pathJoin [templatesPath exCache, ''multiclusterhub'', ''base'']) = Inr [exOther]"
    by (simp add: exEngine_def)
  from GetTemplates_failure_not_cached [of exCache "''2.0.0''" exEngine exWorld, OF miss fail]
    again miss fail
  show ?thesis
    by (simp add: exWorld_def upt_rec)
qed

subsection \<open>The namespace policy\<close>

lemma SetNamespace_GetNamespace:
  "metadataIsObject u \<Longrightarrow> GetNamespace (SetNamespace ns u) = ns"
  by (auto simp: metadataIsObject_def SetNamespace_def GetNamespace_def getNestedString_def
      update_conv' delete_conv' split: option.splits gval.splits)

text \<open>Without a non-empty annotation in a \<^verbatim>\<open>map[string]string\<close> the answer is the default.\<close>

lemma UpdateNamespace_default:
  assumes "\<And>metadata annotations.
             map_of u ''metadata'' = Some (GMap metadata) \<Longrightarrow>
             map_of metadata ''annotations'' = Some (GStrMap annotations) \<Longrightarrow>
             strIndex annotations ''update-namespace'' = []"
  shows "UpdateNamespace u"
  using assms by (auto simp: UpdateNamespace_def split: option.splits gval.splits)

text \<open>The default: when \<^verbatim>\<open>UpdateNamespace\<close> holds the namespace becomes that of the owning
  entity.\<close>

lemma renderNamespace_override:
  assumes "metadataIsObject (h ! res)" and "UpdateNamespace (h ! res)" and "res < length h"
  shows "renderNamespace mch h res
           = Inr (h[res := SetNamespace (mchNamespace mch) (h ! res)], Some res, None) \<and>
         GetNamespace (h[res := SetNamespace (mchNamespace mch) (h ! res)] ! res)
           = mchNamespace mch"
  using assms by (simp add: renderNamespace_def SetNamespace_GetNamespace)

text \<open>An annotation held in a \<^verbatim>\<open>map[string]string\<close> with a value that parses to false
  leaves the resource as it is.\<close>

lemma renderNamespace_opt_out:
  assumes "map_of (h ! res) ''metadata'' = Some (GMap metadata)"
    and "map_of metadata ''annotations'' = Some (GStrMap annotations)"
    and "map_of annotations ''update-namespace'' = Some ''false''"
  shows "renderNamespace mch h res = Inr (h, Some res, None)"
  using assms
  by (simp add: renderNamespace_def UpdateNamespace_def strIndex_def ParseBool_def)

text \<open>
  Claim C2. For every resource routed through the namespace transform: without an
  \<open>update-namespace\<close> annotation (or with an empty value) its namespace is set to that of the
  owning entity; with the annotation \<open>update-namespace\<close> set to \<open>"false"\<close> the original
  namespace is left untouched.

  The second half fails on the code for every resource the pipeline can process. The
  annotation is looked for in a \<^verbatim>\<open>map[string]string\<close>, but the annotations of a loaded
  resource are a \<^verbatim>\<open>map[string]interface{}\<close> (and \<^verbatim>\<open>DeepCopy\<close> panics on anything else, see
  \<open>jsonShaped_UpdateNamespace\<close>), so the annotation is never seen. Here a Deployment in
  namespace \<open>orig\<close> annotated \<open>update-namespace: "false"\<close> is rendered for an owner in \<open>ns-a\<close>:
  the rendered object is in \<open>ns-a\<close>.
\<close>

theorem renderNamespace_ignores_annotation:
  "renderTemplates (NewRenderer DefaultUnstructuredConverter exHub)
     [exDeployment (GMap [(''update-namespace'', GString ''false'')])] [0]
   = Inr ([exDeployment (GMap [(''update-namespace'', GString ''false'')]),
           SetNamespace ''ns-a'' (exDeployment (GMap [(''update-namespace'', GString ''false'')]))],
          [1], None) \<and>
   GetNamespace (exDeployment (GMap [(''update-namespace'', GString ''false'')])) = ''orig'' \<and>
   GetNamespace (SetNamespace ''ns-a''
     (exDeployment (GMap [(''update-namespace'', GString ''false'')]))) = ''ns-a''"
proof -
  let ?d = "exDeployment (GMap [(''update-namespace'', GString ''false'')])"
  have u: "UpdateNamespace ?d"
    by (rule jsonShaped_UpdateNamespace) (rule ex_jsonShaped)
  have "renderTemplates (NewRenderer DefaultUnstructuredConverter exHub) [?d] [0]
          = Inr ([?d, SetNamespace ''ns-a'' ?d], [1], None)"
    using u by (simp add: renderTemplates_def ex_kinds ex_fns DeepCopy_def ex_jsonShaped alloc_def
        renderNamespace_def exHub_def del: jsonShaped.simps)
  moreover have "GetNamespace ?d = ''orig''"
    by (simp add: GetNamespace_def getNestedString_def exDeployment_def)
  moreover have "GetNamespace (SetNamespace ''ns-a'' ?d) = ''ns-a''"
    by (rule SetNamespace_GetNamespace) (simp add: metadataIsObject_def exDeployment_def)
  ultimately show ?thesis by simp
qed

text \<open>
  Claim C10. For every resource whose \<open>metadata.annotations\<close>, a string-to-string map, holds a
  non-empty \<open>update-namespace\<close> value that is not a valid boolean string (such as \<open>"yes"\<close>),
  \<^verbatim>\<open>UpdateNamespace\<close> returns false: the namespace is not overridden and no error comes up; the
  parse error is dropped, neither restoring the default nor aborting the render.

  \<^verbatim>\<open>ParseBool\<close> answers \<open>(false, error)\<close>, \<^verbatim>\<open>UpdateNamespace\<close> is false, and
  \<^verbatim>\<open>renderNamespace\<close> returns the resource as it was, with no error.
\<close>

theorem UpdateNamespace_unparsable_annotation:
  assumes "res < length h"
    and "map_of (h ! res) ''metadata'' = Some (GMap metadata)"
    and "map_of metadata ''annotations'' = Some (GStrMap annotations)"
    and "map_of annotations ''update-namespace'' = Some v"
    and "v \<noteq> []"
    and "snd (ParseBool v) \<noteq> None"
  shows "ParseBool v = (False, Some (SyntaxError ''ParseBool'' v)) \<and>
         UpdateNamespace (h ! res) = False \<and>
         renderNamespace mch h res = Inr (h, Some res, None)"
  using assms
  by (simp add: UpdateNamespace_def strIndex_def renderNamespace_def ParseBool_def
      split: if_splits)

theorem UpdateNamespace_unparsable_annotation_witness:
  "snd (ParseBool ''yes'') \<noteq> None \<and>
   UpdateNamespace (exDeployment (GStrMap [(''update-namespace'', ''yes'')])) = False \<and>
   renderNamespace exHub [exDeployment (GStrMap [(''update-namespace'', ''yes'')])] 0
     = Inr ([exDeployment (GStrMap [(''update-namespace'', ''yes'')])], Some 0, None)"
proof -
  let ?d = "exDeployment (GStrMap [(''update-namespace'', ''yes'')])"
  let ?md = "[(''name'', GString ''console''), (''namespace'', GString ''orig''),
              (''annotations'', GStrMap [(''update-namespace'', ''yes'')])]"
  have valid: "0 < length [?d]" by simp
  have md: "map_of ([?d] ! 0) ''metadata'' = Some (GMap ?md)"
    by (simp add: exDeployment_def)
  have anns: "map_of ?md ''annotations'' = Some (GStrMap [(''update-namespace'', ''yes'')])"
    by simp
  have v: "map_of [(''update-namespace'', ''yes'')] ''update-namespace'' = Some ''yes''"
    by simp
  have ne: "''yes'' \<noteq> []" by simp
  have bad: "snd (ParseBool ''yes'') \<noteq> None" by (simp add: ParseBool_def)
  from UpdateNamespace_unparsable_annotation [OF valid md anns v ne bad, of exHub] bad
  show ?thesis by simp
qed

subsection \<open>Cluster role bindings\<close>

text \<open>
  Claim C4. For every ClusterRoleBinding that decodes successfully and whose first subject
  has kind \<open>"Group"\<close>, rendering leaves the subject list (the first subject's namespace
  included) unchanged, whatever the \<open>update-namespace\<close> annotation and the namespace of the
  owning entity.

  For any converter, owner and annotations: the function returns the resource it was given,
  without error, and the \<open>subjects\<close> field of that resource is what it was.
\<close>

theorem renderClusterRoleBinding_Group:
  assumes valid: "res < length h"
    and dec: "FromUnstructured conv (AddInstallerLabel (h ! res) (mchName mch) (mchNamespace mch))
              = Inr clusterRoleBinding"
    and subj: "Subjects clusterRoleBinding = subject # rest"
    and kind: "subjKind subject = ''Group''"
  shows "\<exists>h'. renderClusterRoleBinding conv mch h res = Inr (h', Some res, None) \<and>
           length h' = length h \<and>
           map_of (h' ! res) ''subjects'' = map_of (h ! res) ''subjects'' \<and>
           firstSubjectNamespace (h' ! res) = firstSubjectNamespace (h ! res)"
  using assms
  by (simp add: renderClusterRoleBinding_def AddInstallerLabel_other firstSubjectNamespace_def)

theorem renderClusterRoleBinding_Group_witness:
  "FromUnstructured DefaultUnstructuredConverter
     (AddInstallerLabel (exBinding ''Group'') (mchName exHub) (mchNamespace exHub))
     = Inr (exTypedBinding ''Group'') \<and>
   renderClusterRoleBinding DefaultUnstructuredConverter exHub [exBinding ''Group''] 0
     = Inr ([AddInstallerLabel (exBinding ''Group'') ''hub'' ''ns-a''], Some 0, None) \<and>
   firstSubjectNamespace (AddInstallerLabel (exBinding ''Group'') ''hub'' ''ns-a'') = Some ''orig'' \<and>
   firstSubjectNamespace (exBinding ''Group'') = Some ''orig''"
proof -
  let ?s = "\<lparr>subjKind = ''Group'', subjAPIGroup = [], subjName = ''sa'',
            subjNamespace = ''orig''\<rparr>"
  have valid: "0 < length [exBinding ''Group'']" by simp
  have dec: "FromUnstructured DefaultUnstructuredConverter
      (AddInstallerLabel ([exBinding ''Group''] ! 0) (mchName exHub) (mchNamespace exHub))
      = Inr (exTypedBinding ''Group'')"
    by (simp add: DefaultUnstructuredConverter_def exHub_def ex_decoded_binding)
  have subj: "Subjects (exTypedBinding ''Group'') = ?s # []"
    by (simp add: exTypedBinding_def)
  have kind: "subjKind ?s = ''Group''" by simp
  from renderClusterRoleBinding_Group [OF valid dec subj kind]
  obtain h' where
    "renderClusterRoleBinding DefaultUnstructuredConverter exHub [exBinding ''Group''] 0
       = Inr (h', Some 0, None)"
    "firstSubjectNamespace (h' ! 0) = firstSubjectNamespace ([exBinding ''Group''] ! 0)"
    by blast
  with ex_render_group [of "[]"] dec show ?thesis
    by (auto simp: ex_subjects)
qed

text \<open>
  Claim C5. For every ClusterRoleBinding that decodes successfully, whose first subject has
  kind \<open>"ServiceAccount"\<close> and which carries no opt-out annotation, rendering rewrites the
  first subject's namespace to that of the owning entity and attaches the installer label
  derived from the name and namespace of the owning entity.

  With the model of the converter, for a resource with object metadata on which
  \<^verbatim>\<open>UpdateNamespace\<close> holds (as it does when there is no annotation): the function returns a
  new object, without error, whose first subject is in the owner's namespace and whose labels
  hold the owner's name under \<open>installer.name\<close> and its namespace under
  \<open>installer.namespace\<close>.
\<close>

theorem renderClusterRoleBinding_ServiceAccount:
  assumes valid: "res < length h"
    and meta: "metadataIsObject (h ! res)"
    and dec: "crbFromUnstructured (AddInstallerLabel (h ! res) (mchName mch) (mchNamespace mch))
              = Inr clusterRoleBinding"
    and subj: "Subjects clusterRoleBinding = subject # rest"
    and kind: "subjKind subject = ''ServiceAccount''"
    and optin: "UpdateNamespace (h ! res)"
  shows "\<exists>h' u. renderClusterRoleBinding DefaultUnstructuredConverter mch h res
               = Inr (h', Some u, None) \<and> u < length h' \<and>
           firstSubjectNamespace (h' ! u) = Some (mchNamespace mch) \<and>
           map_of (GetLabels (h' ! u)) ''installer.name'' = Some (mchName mch) \<and>
           map_of (GetLabels (h' ! u)) ''installer.namespace'' = Some (mchNamespace mch)"
proof -
  let ?L = "AddInstallerLabel (h ! res) (mchName mch) (mchNamespace mch)"
  let ?ls = "AList.update ''installer.namespace'' (mchNamespace mch)
               (AList.update ''installer.name'' (mchName mch) (GetLabels (h ! res)))"
  let ?h1 = "h[res := ?L]"
  let ?c = "clusterRoleBinding\<lparr>Subjects := subject\<lparr>subjNamespace := mchNamespace mch\<rparr> # rest\<rparr>"
  obtain out where out: "crbToUnstructured ?c = Inr out"
    by (simp add: crbToUnstructured_def)
  from SetLabels_metadata [OF meta, of ?ls] obtain m' where
    m': "map_of ?L ''metadata'' = Some (GMap m')"
        "map_of m' ''labels'' = Some (GMap (map (\<lambda>kv. (fst kv, GString (snd kv))) ?ls))"
    by (auto simp: AddInstallerLabel_def)
  from decoded_labels [OF dec m'] have labels: "omLabels (crbObjectMeta ?c) = ?ls" by simp
  then have ne: "omLabels (crbObjectMeta ?c) \<noteq> []" by simp
  have run: "renderClusterRoleBinding DefaultUnstructuredConverter mch h res
             = Inr (?h1 @ [out], Some (length ?h1), None)"
    using valid dec subj kind optin out
    by (simp add: renderClusterRoleBinding_def DefaultUnstructuredConverter_def alloc_def
        UpdateNamespace_AddInstallerLabel)
  have "firstSubjectNamespace out = Some (mchNamespace mch)"
    using encoded_first_subject [OF out] by simp
  moreover have "GetLabels out = ?ls"
    using encoded_labels [OF out ne] labels by simp
  moreover have "(?h1 @ [out]) ! length h = out"
    by (simp add: nth_append)
  ultimately show ?thesis
    using run
    by (intro exI [of _ "?h1 @ [out]"] exI [of _ "length ?h1"]) (simp add: installer_labels)
qed

theorem renderClusterRoleBinding_ServiceAccount_witness:
  "metadataIsObject (exBinding ''ServiceAccount'') \<and>
   UpdateNamespace (exBinding ''ServiceAccount'') \<and>
   crbFromUnstructured
     (AddInstallerLabel (exBinding ''ServiceAccount'') (mchName exHub) (mchNamespace exHub))
     = Inr (exTypedBinding ''ServiceAccount'') \<and>
   renderClusterRoleBinding DefaultUnstructuredConverter exHub [exBinding ''ServiceAccount''] 0
     = Inr ([AddInstallerLabel (exBinding ''ServiceAccount'') ''hub'' ''ns-a'', exRenderedBinding],
            Some 1, None) \<and>
   firstSubjectNamespace exRenderedBinding = Some ''ns-a'' \<and>
   map_of (GetLabels exRenderedBinding) ''installer.name'' = Some ''hub'' \<and>
   map_of (GetLabels exRenderedBinding) ''installer.namespace'' = Some ''ns-a''"
proof -
  let ?s = "\<lparr>subjKind = ''ServiceAccount'', subjAPIGroup = [], subjName = ''sa'',
            subjNamespace = ''orig''\<rparr>"
  have valid: "0 < length [exBinding ''ServiceAccount'']" by simp
  have meta: "metadataIsObject ([exBinding ''ServiceAccount''] ! 0)"
    by (simp add: metadataIsObject_def exBinding_def)
  have dec: "crbFromUnstructured
      (AddInstallerLabel ([exBinding ''ServiceAccount''] ! 0) (mchName exHub) (mchNamespace exHub))
      = Inr (exTypedBinding ''ServiceAccount'')"
    by (simp add: exHub_def ex_decoded_binding)
  have subj: "Subjects (exTypedBinding ''ServiceAccount'') = ?s # []"
    by (simp add: exTypedBinding_def)
  have kind: "subjKind ?s = ''ServiceAccount''" by simp
  have optin: "UpdateNamespace ([exBinding ''ServiceAccount''] ! 0)"
    using jsonShaped_UpdateNamespace [OF ex_jsonShaped(2), of "''ServiceAccount''"] by simp
  from renderClusterRoleBinding_ServiceAccount [OF valid meta dec subj kind optin]
  obtain h' u where
    "renderClusterRoleBinding DefaultUnstructuredConverter exHub [exBinding ''ServiceAccount''] 0
       = Inr (h', Some u, None)"
    "firstSubjectNamespace (h' ! u) = Some (mchNamespace exHub)"
    "map_of (GetLabels (h' ! u)) ''installer.name'' = Some (mchName exHub)"
    "map_of (GetLabels (h' ! u)) ''installer.namespace'' = Some (mchNamespace exHub)"
    by blast
  with ex_render_binding [of "[]"] meta dec optin show ?thesis
    by (auto simp: exHub_def)
qed

subsection \<open>The pipeline\<close>

text \<open>
  Claim C3. If the render function of any single resource returns an error during the
  pipeline, \<^verbatim>\<open>renderTemplates\<close> returns that error together with an empty collection (not
  the resources processed so far), and \<^verbatim>\<open>Render\<close> hands the error on with no usable output.

  The resources \<open>pre\<close> are processed without error, then the render function of \<open>template\<close>
  returns the error \<open>e\<close>: whatever \<open>pre\<close> has produced and whatever follows, the result of
  \<^verbatim>\<open>renderTemplates\<close> is the empty slice with \<open>e\<close>, and so is that of \<^verbatim>\<open>Render\<close>.
\<close>

theorem fail_fast:
  assumes pre: "renderLoop r h [] pre = Inr (h1, uobjs, None)"
    and fn: "renderFns r (GetKind (h1 ! template)) = Some renderFn"
    and copy: "DeepCopy h1 template = Inr (h2, c)"
    and err: "renderFn h2 c = Inr (h3, uobj, Some e)"
    and tr: "GetTemplateRenderer env g = Inr g1" "templateRenderer g1 = Some tr"
    and get: "GetTemplates eng version tr w = ((tr', w1), (pre @ template # post, None))"
    and heap: "objects w1 = h"
  shows "renderTemplates r h (pre @ template # post) = Inr (h3, [], Some e) \<and>
         Render eng env version r (g, w)
           = Inr ((g1\<lparr>templateRenderer := Some tr'\<rparr>, w1\<lparr>objects := h3\<rparr>), ([], Some e))"
proof -
  have rt: "renderTemplates r h (pre @ template # post) = Inr (h3, [], Some e)"
    unfolding renderTemplates_def renderLoop_append
    using pre fn copy err by simp
  then show ?thesis
    using tr get heap by (simp add: Render_def)
qed

theorem fail_fast_witness:
  "renderTemplates (NewRenderer DefaultUnstructuredConverter exHub)
     [exOther, exBadBinding, exBinding ''Group''] [0, 1, 2]
   = Inr ([exOther, exBadBinding, exBinding ''Group'',
           AddInstallerLabel exBadBinding ''hub'' ''ns-a''], [], Some (ConvertError ''slice'')) \<and>
   Render (\<lambda>n p. Inr [exOther, exBadBinding, exBinding ''Group''])
     [''TEMPLATES_PATH'' \<mapsto> ''/templates''] ''2.0.0''
     (NewRenderer DefaultUnstructuredConverter exHub)
     (\<lparr>loadTemplateRendererOnce = False, templateRenderer = None\<rparr>, exWorld)
   = Inr ((\<lparr>loadTemplateRendererOnce = True,
            templateRenderer = Some \<lparr>templatesPath = ''/templates'',
               templates = [(''multiclusterhub-2.0.0'', [0, 1, 2])]\<rparr>\<rparr>,
           \<lparr>objects = [exOther, exBadBinding, exBinding ''Group'',
                       AddInstallerLabel exBadBinding ''hub'' ''ns-a''], renders = 1\<rparr>),
          ([], Some (ConvertError ''slice'')))"
proof -
  let ?r = "NewRenderer DefaultUnstructuredConverter exHub"
  let ?h = "[exOther, exBadBinding, exBinding ''Group'']"
  let ?h3 = "[exOther, exBadBinding, exBinding ''Group'',
              AddInstallerLabel exBadBinding ''hub'' ''ns-a'']"
  let ?g = "\<lparr>loadTemplateRendererOnce = False, templateRenderer = None\<rparr>"
  let ?tr = "\<lparr>templatesPath = ''/templates'', templates = []\<rparr>"
  let ?g1 = "\<lparr>loadTemplateRendererOnce = True, templateRenderer = Some ?tr\<rparr>"
  let ?tr' = "\<lparr>templatesPath = ''/templates'',
              templates = [(''multiclusterhub-2.0.0'', [0, 1, 2])]\<rparr>"
  let ?w1 = "\<lparr>objects = ?h, renders = 1\<rparr>"
  have pre: "renderLoop ?r ?h [] [0] = Inr (?h, [0], None)"
    by (simp add: ex_kinds ex_fns)
  have fn: "renderFns ?r (GetKind (?h ! 1))
              = Some (renderClusterRoleBinding DefaultUnstructuredConverter exHub)"
    by (simp add: ex_kinds ex_fns)
  have copy: "DeepCopy ?h 1 = Inr (?h @ [exBadBinding], 3)"
    by (simp add: DeepCopy_def alloc_def ex_jsonShaped del: jsonShaped.simps)
  have err: "renderClusterRoleBinding DefaultUnstructuredConverter exHub (?h @ [exBadBinding]) 3
               = Inr (?h3, None, Some (ConvertError ''slice''))"
    using ex_render_bad [of ?h] by (simp add: numeral_3_eq_3)
  have tr: "GetTemplateRenderer [''TEMPLATES_PATH'' \<mapsto> ''/templates''] ?g = Inr ?g1"
    "templateRenderer ?g1 = Some ?tr"
    by (simp_all add: GetTemplateRenderer_def)
  have get: "GetTemplates (\<lambda>n p. Inr ?h) ''2.0.0'' ?tr exWorld
               = ((?tr', ?w1), ([0] @ 1 # [2], None))"
    by (simp add: GetTemplates_def render_def exWorld_def upt_rec)
  have heap: "objects ?w1 = ?h" by simp
  from fail_fast [OF pre fn copy err tr get heap] show ?thesis by simp
qed

text \<open>
  Claim C6. Every resource whose kind has no entry in the dispatch table is included in the
  output structurally unchanged (wrapped into the generic form) and never dropped; the
  order of the output is the order in which the template cache returned the resources.

  When the pipeline of \<^verbatim>\<open>NewRenderer\<close> returns without error, the output has one entry for
  each template, in the same order; at the position of a template of a kind without render
  function stands that very template, with the content it had before.
\<close>

theorem unregistered_pass_through:
  assumes valid: "\<forall>t \<in> set ts. t < length h"
    and run: "renderTemplates (NewRenderer conv mch) h ts = Inr (h', out, None)"
  shows "length out = length ts \<and>
         (\<forall>i < length ts. renderFns (NewRenderer conv mch) (GetKind (h ! (ts ! i))) = None \<longrightarrow>
            out ! i = ts ! i \<and> h' ! (out ! i) = h ! (ts ! i))"
proof -
  from run have loop: "renderLoop (NewRenderer conv mch) h [] ts = Inr (h', out, None)"
    unfolding renderTemplates_def .
  from renderLoop_positions [OF NewRenderer_confined valid loop]
  obtain out' where "out = [] @ out'" "length out' = length ts"
    "\<forall>i < length ts. renderFns (NewRenderer conv mch) (GetKind (h ! (ts ! i))) = None \<longrightarrow>
         out' ! i = ts ! i"
    by blast
  then have pos: "length out = length ts"
    "\<forall>i < length ts. renderFns (NewRenderer conv mch) (GetKind (h ! (ts ! i))) = None \<longrightarrow>
         out ! i = ts ! i"
    by simp_all
  from renderLoop_frame [OF NewRenderer_confined valid loop]
  have "\<forall>b < length h. h' ! b = h ! b" by blast
  with valid have "\<forall>i < length ts. h' ! (ts ! i) = h ! (ts ! i)" by simp
  with pos show ?thesis by auto
qed

theorem unregistered_pass_through_witness:
  "renderTemplates (NewRenderer DefaultUnstructuredConverter exHub)
     [exOther, exBinding ''Group'', exOther] [0, 1, 2]
   = Inr ([exOther, exBinding ''Group'', exOther,
           AddInstallerLabel (exBinding ''Group'') ''hub'' ''ns-a''], [0, 3, 2], None) \<and>
   renderFns (NewRenderer DefaultUnstructuredConverter exHub) (GetKind exOther) = None \<and>
   length [0, 3, 2 :: nat] = length [0, 1, 2 :: nat] \<and>
   [0, 3, 2 :: nat] ! 2 = [0, 1, 2] ! 2 \<and>
   [exOther, exBinding ''Group'', exOther,
    AddInstallerLabel (exBinding ''Group'') ''hub'' ''ns-a''] ! 2 = exOther"
proof -
  let ?h = "[exOther, exBinding ''Group'', exOther]"
  let ?h' = "[exOther, exBinding ''Group'', exOther,
              AddInstallerLabel (exBinding ''Group'') ''hub'' ''ns-a'']"
  have valid: "\<forall>t \<in> set [0, 1, 2]. t < length ?h" by simp
  have run: "renderTemplates (NewRenderer DefaultUnstructuredConverter exHub) ?h [0, 1, 2]
               = Inr (?h', [0, 3, 2], None)"
    using ex_render_group [of ?h]
    by (simp add: renderTemplates_def ex_kinds ex_fns ex_jsonShaped DeepCopy_def alloc_def
        del: jsonShaped.simps)
  have other: "renderFns (NewRenderer DefaultUnstructuredConverter exHub) (GetKind exOther) = None"
    by (simp add: ex_kinds ex_fns)
  from unregistered_pass_through [OF valid run] run other show ?thesis by simp
qed

text \<open>
  Claim C8. Every registered render function works on a deep copy of the cached template,
  so the collection stored in the template cache is structurally the same before and after
  a render: the pipeline never changes the stored templates.

  Whenever the pipeline of \<^verbatim>\<open>NewRenderer\<close> returns, with or without error, every object
  that was on the heap when it started (each cached template among them) has the content it
  had; what the render functions wrote went to new objects.
\<close>

theorem templates_not_mutated:
  assumes valid: "\<forall>t \<in> set ts. t < length h"
    and run: "renderTemplates (NewRenderer conv mch) h ts = Inr (h', out, err)"
  shows "length h \<le> length h' \<and> take (length h) h' = h \<and> (\<forall>t \<in> set ts. h' ! t = h ! t)"
proof -
  from run have loop: "renderLoop (NewRenderer conv mch) h [] ts = Inr (h', out, err)"
    unfolding renderTemplates_def .
  from renderLoop_frame [OF NewRenderer_confined valid loop]
  have fr: "length h \<le> length h'" "\<forall>b < length h. h' ! b = h ! b"
    by blast+
  then have "take (length h) h' = h"
    by (intro nth_equalityI) auto
  with fr valid show ?thesis by auto
qed

theorem templates_not_mutated_witness:
  "renderTemplates (NewRenderer DefaultUnstructuredConverter exHub)
     [exBinding ''ServiceAccount''] [0]
   = Inr ([exBinding ''ServiceAccount'',
           AddInstallerLabel (exBinding ''ServiceAccount'') ''hub'' ''ns-a'', exRenderedBinding],
          [2], None) \<and>
   take (length [exBinding ''ServiceAccount''])
     [exBinding ''ServiceAccount'',
      AddInstallerLabel (exBinding ''ServiceAccount'') ''hub'' ''ns-a'', exRenderedBinding]
   = [exBinding ''ServiceAccount'']"
proof -
  let ?h = "[exBinding ''ServiceAccount'']"
  have valid: "\<forall>t \<in> set [0]. t < length ?h" by simp
  have run: "renderTemplates (NewRenderer DefaultUnstructuredConverter exHub) ?h [0]
     = Inr ([exBinding ''ServiceAccount'',
             AddInstallerLabel (exBinding ''ServiceAccount'') ''hub'' ''ns-a'', exRenderedBinding],
            [2], None)"
    using ex_render_binding [of ?h]
    by (simp add: renderTemplates_def ex_kinds ex_fns ex_jsonShaped DeepCopy_def alloc_def
        del: jsonShaped.simps)
  from templates_not_mutated [OF valid run] run show ?thesis by simp
qed

end
